theory Spec2Isabelle
  imports Main
begin

section \<open>Errors and outcomes\<close>

text \<open>
  The builder throws \<^verbatim>\<open>Error(message)\<close> with one of two messages; the JSON helper lets
  the exceptions of \<^verbatim>\<open>JSON.parse\<close> and \<^verbatim>\<open>Object.setPrototypeOf\<close> escape.
  \<^item> \<open>DuplicateSelectorPartError\<close>: "Element, id and pseudo-element should not occur more
    then one time inside the selector" (thrown by \<^verbatim>\<open>onlyOneError\<close>);
  \<^item> \<open>SelectorOrderError\<close>: "Selector parts should be arranged in the following order:
    element, id, class, attribute, pseudo-class, pseudo-element" (thrown by \<^verbatim>\<open>checkOrder\<close>);
  \<^item> \<open>ParseError\<close>: the SyntaxError of \<^verbatim>\<open>JSON.parse\<close>;
  \<^item> \<open>TypeError\<close>: the TypeError of \<^verbatim>\<open>Object.setPrototypeOf\<close>.
\<close>

datatype error =
    DuplicateSelectorPartError
  | SelectorOrderError
  | ParseError
  | TypeError

section \<open>The selector builder: class CssBuilder\<close>

text \<open>
  The fields of a \<^verbatim>\<open>CssBuilder\<close> object. \<^verbatim>\<open>tag\<close>, \<^verbatim>\<open>identificator\<close> and
  \<^verbatim>\<open>psElement\<close> hold \<^verbatim>\<open>null\<close> (\<open>None\<close>) or the string passed by the caller; the three
  arrays hold strings; \<^verbatim>\<open>order\<close> is one of the ranks 0..6.
\<close>

record CssBuilder =
  tag :: "string option"
  classes :: "string list"
  identificator :: "string option"
  attributes :: "string list"
  psClasses :: "string list"
  psElement :: "string option"
  selector :: string
  order :: nat

text \<open>
  A method call either returns a value or throws; in both cases the object it was called
  on is left in some state, which the outcome carries. The methods that end in
  \<^verbatim>\<open>return this\<close> return \<open>()\<close>: the handle is the one the call was made on.
\<close>

datatype 'a outcome =
    Returned 'a CssBuilder
  | Thrown error CssBuilder

text \<open>Sequencing of two statements: a throw in the first skips the second.\<close>

fun and_then :: "'a outcome \<Rightarrow> ('a \<Rightarrow> CssBuilder \<Rightarrow> 'b outcome) \<Rightarrow> 'b outcome" where
  "and_then (Returned a s) f = f a s"
| "and_then (Thrown e s) f = Thrown e s"

text \<open>The state in which a call leaves the object, whether it returned or threw.\<close>

fun handle :: "'a outcome \<Rightarrow> CssBuilder" where
  "handle (Returned a s) = s"
| "handle (Thrown e s) = s"

text \<open>
  JavaScript truthiness of a field that holds \<^verbatim>\<open>null\<close> or a string: \<^verbatim>\<open>null\<close> and the
  empty string are falsy, every other string is truthy.
\<close>

fun truthy :: "string option \<Rightarrow> bool" where
  "truthy None = False"
| "truthy (Some v) = (v \<noteq> [])"

text \<open>String conversion inside a template literal: \<^verbatim>\<open>`${null}`\<close> is \<^verbatim>\<open>'null'\<close>.\<close>

fun to_string :: "string option \<Rightarrow> string" where
  "to_string None = ''null''"
| "to_string (Some v) = v"

text \<open>\<^verbatim>\<open>Array.prototype.join(sep)\<close> on an array of strings.\<close>

fun join :: "string \<Rightarrow> string list \<Rightarrow> string" where
  "join sep [] = []"
| "join sep [x] = x"
| "join sep (x # y # ys) = x @ sep @ join sep (y # ys)"

definition initAll :: "CssBuilder \<Rightarrow> CssBuilder" where
  "initAll s =
     s\<lparr>tag := None,
       classes := [],
       identificator := None,
       attributes := [],
       psClasses := [],
       psElement := None,
       selector := [],
       order := 0\<rparr>"

text \<open>
  \<^verbatim>\<open>new CssBuilder()\<close>: the constructor only calls \<^verbatim>\<open>initAll\<close>, which assigns every
  field, so the new object is the record of those values.
\<close>

definition new_CssBuilder :: CssBuilder where
  "new_CssBuilder =
     \<lparr>tag = None, classes = [], identificator = None, attributes = [],
      psClasses = [], psElement = None, selector = [], order = 0\<rparr>"

definition onlyOneError :: "CssBuilder \<Rightarrow> unit outcome" where
  "onlyOneError s = Thrown DuplicateSelectorPartError (initAll s)"

definition checkOrder :: "nat \<Rightarrow> CssBuilder \<Rightarrow> unit outcome" where
  "checkOrder ord s =
     (if order s > ord then Thrown SelectorOrderError s
      else Returned () (s\<lparr>order := ord\<rparr>))"

definition updateSelector :: "CssBuilder \<Rightarrow> CssBuilder" where
  "updateSelector s =
    (let sel0 = [];
         sel1 = (if truthy (tag s) then sel0 @ to_string (tag s) else sel0);
         sel2 = (if length (attributes s) \<noteq> 0
                 then sel1 @ ''['' @ join '']['' (attributes s) @ '']'' else sel1);
         sel3 = (if truthy (identificator s)
                 then sel2 @ ''#'' @ to_string (identificator s) else sel2);
         sel4 = (if length (classes s) \<noteq> 0
                 then sel3 @ join [] (map (\<lambda>el. ''.'' @ el) (classes s)) else sel3);
         sel5 = (if length (psClasses s) \<noteq> 0
                 then sel4 @ join [] (map (\<lambda>el. '':'' @ el) (psClasses s)) else sel4);
         sel6 = (if truthy (psElement s)
                 then sel5 @ ''::'' @ to_string (psElement s) else sel5)
     in s\<lparr>selector := sel6\<rparr>)"

text \<open>
  The six fragment-adding methods. In \<^verbatim>\<open>class\<close>, \<^verbatim>\<open>attr\<close> and \<^verbatim>\<open>pseudoClass\<close> the
  guard \<^verbatim>\<open>if (!this.classes) this.classes = []\<close> never fires: the field holds an array
  from the constructor on, and every array is truthy.
\<close>

definition element :: "string \<Rightarrow> CssBuilder \<Rightarrow> unit outcome" where
  "element v s =
     and_then (if truthy (tag s) then onlyOneError s else Returned () s) (\<lambda>_ s1.
     and_then (checkOrder 1 s1) (\<lambda>_ s2.
     Returned () (updateSelector (s2\<lparr>tag := Some v\<rparr>))))"

definition id_sel :: "string \<Rightarrow> CssBuilder \<Rightarrow> unit outcome" where
  "id_sel v s =
     and_then (if truthy (identificator s) then onlyOneError s else Returned () s) (\<lambda>_ s1.
     and_then (checkOrder 2 s1) (\<lambda>_ s2.
     Returned () (updateSelector (s2\<lparr>identificator := Some v\<rparr>))))"

definition class_sel :: "string \<Rightarrow> CssBuilder \<Rightarrow> unit outcome" where
  "class_sel v s =
     and_then (checkOrder 3 s) (\<lambda>_ s1.
     Returned () (updateSelector (s1\<lparr>classes := classes s1 @ [v]\<rparr>)))"

definition attr :: "string \<Rightarrow> CssBuilder \<Rightarrow> unit outcome" where
  "attr v s =
     and_then (checkOrder 4 s) (\<lambda>_ s1.
     Returned () (updateSelector (s1\<lparr>attributes := attributes s1 @ [v]\<rparr>)))"

definition pseudoClass :: "string \<Rightarrow> CssBuilder \<Rightarrow> unit outcome" where
  "pseudoClass v s =
     and_then (checkOrder 5 s) (\<lambda>_ s1.
     Returned () (updateSelector (s1\<lparr>psClasses := psClasses s1 @ [v]\<rparr>)))"

definition pseudoElement :: "string \<Rightarrow> CssBuilder \<Rightarrow> unit outcome" where
  "pseudoElement v s =
     and_then (if truthy (psElement s) then onlyOneError s else Returned () s) (\<lambda>_ s1.
     and_then (checkOrder 6 s1) (\<lambda>_ s2.
     Returned () (updateSelector (s2\<lparr>psElement := Some v\<rparr>))))"

text \<open>\<^verbatim>\<open>stringify\<close> never throws: it returns the string and leaves the reset object.\<close>

definition stringify :: "CssBuilder \<Rightarrow> string \<times> CssBuilder" where
  "stringify s = (let sel = selector s in (sel, initAll s))"

subsection \<open>combine: three handles, possibly the same object\<close>

text \<open>
  \<^verbatim>\<open>combine\<close> calls \<^verbatim>\<open>stringify\<close> on two other handles and writes to \<^verbatim>\<open>this\<close>.
  The three may be one and the same object, so the objects live in a store indexed by
  reference. The template literal evaluates \<^verbatim>\<open>selector1.stringify()\<close> first, then
  \<^verbatim>\<open>selector2.stringify()\<close>, and the assignment to \<^verbatim>\<open>this.selector\<close> comes last.
\<close>

type_synonym ref = nat
type_synonym store = "ref \<Rightarrow> CssBuilder"

definition stringify_at :: "ref \<Rightarrow> store \<Rightarrow> string \<times> store" where
  "stringify_at r h = (let (sel, s') = stringify (h r) in (sel, h(r := s')))"

definition combine :: "ref \<Rightarrow> ref \<Rightarrow> string \<Rightarrow> ref \<Rightarrow> store \<Rightarrow> store" where
  "combine this selector1 combinator selector2 h =
     (let (str1, h1) = stringify_at selector1 h;
          (str2, h2) = stringify_at selector2 h1
      in h2(this := (h2 this)\<lparr>selector := str1 @ '' '' @ combinator @ '' '' @ str2\<rparr>))"

subsection \<open>The facade cssSelectorBuilder\<close>

text \<open>Every entry point makes a new \<^verbatim>\<open>CssBuilder\<close> and calls the method on it.\<close>

definition cssSelectorBuilder_element :: "string \<Rightarrow> unit outcome" where
  "cssSelectorBuilder_element v = element v new_CssBuilder"

definition cssSelectorBuilder_id :: "string \<Rightarrow> unit outcome" where
  "cssSelectorBuilder_id v = id_sel v new_CssBuilder"

definition cssSelectorBuilder_class :: "string \<Rightarrow> unit outcome" where
  "cssSelectorBuilder_class v = class_sel v new_CssBuilder"

definition cssSelectorBuilder_attr :: "string \<Rightarrow> unit outcome" where
  "cssSelectorBuilder_attr v = attr v new_CssBuilder"

definition cssSelectorBuilder_pseudoClass :: "string \<Rightarrow> unit outcome" where
  "cssSelectorBuilder_pseudoClass v = pseudoClass v new_CssBuilder"

definition cssSelectorBuilder_pseudoElement :: "string \<Rightarrow> unit outcome" where
  "cssSelectorBuilder_pseudoElement v = pseudoElement v new_CssBuilder"

definition cssSelectorBuilder_stringify :: "string \<times> CssBuilder" where
  "cssSelectorBuilder_stringify = stringify new_CssBuilder"

text \<open>
  For \<^verbatim>\<open>combine\<close> the reference of the new object is the parameter \<open>fresh\<close>.
\<close>

definition cssSelectorBuilder_combine :: "ref \<Rightarrow> ref \<Rightarrow> string \<Rightarrow> ref \<Rightarrow> store \<Rightarrow> store" where
  "cssSelectorBuilder_combine fresh selector1 combinator selector2 h =
     combine fresh selector1 combinator selector2 (h(fresh := new_CssBuilder))"

subsection \<open>Chains of calls\<close>

text \<open>
  The fragment-adding calls as data, with the rank each passes to \<^verbatim>\<open>checkOrder\<close>, and
  a chain \<^verbatim>\<open>h.a(..).b(..)\<close> that stops at the first throw.
\<close>

datatype call =
    Element string
  | Id string
  | Class string
  | Attr string
  | PseudoClass string
  | PseudoElement string

fun rank :: "call \<Rightarrow> nat" where
  "rank (Element v) = 1"
| "rank (Id v) = 2"
| "rank (Class v) = 3"
| "rank (Attr v) = 4"
| "rank (PseudoClass v) = 5"
| "rank (PseudoElement v) = 6"

fun arg :: "call \<Rightarrow> string" where
  "arg (Element v) = v"
| "arg (Id v) = v"
| "arg (Class v) = v"
| "arg (Attr v) = v"
| "arg (PseudoClass v) = v"
| "arg (PseudoElement v) = v"

fun invoke :: "call \<Rightarrow> CssBuilder \<Rightarrow> unit outcome" where
  "invoke (Element v) s = element v s"
| "invoke (Id v) s = id_sel v s"
| "invoke (Class v) s = class_sel v s"
| "invoke (Attr v) s = attr v s"
| "invoke (PseudoClass v) s = pseudoClass v s"
| "invoke (PseudoElement v) s = pseudoElement v s"

fun chain :: "call list \<Rightarrow> CssBuilder \<Rightarrow> unit outcome" where
  "chain [] s = Returned () s"
| "chain (c # cs) s = and_then (invoke c s) (\<lambda>_ s'. chain cs s')"

text \<open>The singleton slot a call writes, if it is one of element, id, pseudoElement.\<close>

fun slot :: "call \<Rightarrow> CssBuilder \<Rightarrow> string option" where
  "slot (Element v) s = tag s"
| "slot (Id v) s = identificator s"
| "slot (PseudoElement v) s = psElement s"
| "slot _ s = None"

subsection \<open>The rendering as the specification words it\<close>

text \<open>
  The tag if set, each attribute in square brackets, the id after \<open>#\<close> if set, each class
  after a dot, each pseudo-class after a colon, the pseudo-element after \<open>::\<close> if set.
  A part is set when it holds a non-empty string.
\<close>

fun part :: "string \<Rightarrow> string option \<Rightarrow> string" where
  "part prefix None = []"
| "part prefix (Some v) = (if v = [] then [] else prefix @ v)"

definition rendered :: "CssBuilder \<Rightarrow> string" where
  "rendered s =
     part [] (tag s)
     @ concat (map (\<lambda>a. ''['' @ a @ '']'') (attributes s))
     @ part ''#'' (identificator s)
     @ concat (map (\<lambda>c. ''.'' @ c) (classes s))
     @ concat (map (\<lambda>p. '':'' @ p) (psClasses s))
     @ part ''::'' (psElement s)"

section \<open>Rectangle\<close>

text \<open>
  The object \<^verbatim>\<open>new Rectangle(width, height)\<close>: two stored fields, and \<^verbatim>\<open>getArea\<close>, an
  arrow function that reads both fields of the object when it is called. The number type
  and its product are those of the host; the model is polymorphic in them.
\<close>

record 'a Rectangle =
  width :: 'a
  height :: 'a

definition Rectangle :: "'a \<Rightarrow> 'a \<Rightarrow> 'a Rectangle" where
  "Rectangle w h = \<lparr>width = w, height = h\<rparr>"

definition getArea :: "('a::times) Rectangle \<Rightarrow> 'a" where
  "getArea this = width this * height this"

section \<open>getJSON and fromJSON\<close>

text \<open>
  Both functions are one call to the host's JSON codec; \<^verbatim>\<open>fromJSON\<close> then calls
  \<^verbatim>\<open>Object.setPrototypeOf\<close>. The codec is not code of this repository: the two functions
  take \<^verbatim>\<open>JSON.stringify\<close> and \<^verbatim>\<open>JSON.parse\<close> as parameters, the parser returning \<open>None\<close>
  where \<^verbatim>\<open>JSON.parse\<close> throws its SyntaxError, and a model of the codec follows them. The
  values \<^verbatim>\<open>JSON.parse\<close> can return are \<^verbatim>\<open>null\<close>, booleans, numbers (of a number type
  \<open>'n\<close>), strings, arrays and objects with string keys.
\<close>

datatype 'n json =
    JNull
  | JBool bool
  | JNum 'n
  | JStr string
  | JArr "'n json list"
  | JObj "(string \<times> 'n json) list"

text \<open>
  What \<^verbatim>\<open>fromJSON\<close> returns: the parsed data, and whether its prototype is now the
  descriptor. \<open>Bound p d\<close> is the object or array \<open>d\<close> whose prototype is \<open>p\<close>, so that the
  methods of \<open>p\<close> are found on it; \<open>Unbound d\<close> is the primitive \<open>d\<close>, which has no prototype
  slot of its own.
\<close>

datatype ('n, 'p) jsvalue =
    Bound 'p "'n json"
  | Unbound "'n json"

fun data_of :: "('n, 'p) jsvalue \<Rightarrow> 'n json" where
  "data_of (Bound p d) = d"
| "data_of (Unbound d) = d"

fun prototype_of :: "('n, 'p) jsvalue \<Rightarrow> 'p option" where
  "prototype_of (Bound p d) = Some p"
| "prototype_of (Unbound d) = None"

text \<open>The values that are objects to the host: arrays and objects, not \<^verbatim>\<open>null\<close>.\<close>

fun is_object :: "'n json \<Rightarrow> bool" where
  "is_object (JArr xs) = True"
| "is_object (JObj kvs) = True"
| "is_object _ = False"

text \<open>
  \<^verbatim>\<open>Object.setPrototypeOf(obj, proto)\<close> of ECMAScript, with \<open>proto\<close> an object: a
  TypeError when \<open>obj\<close> is \<^verbatim>\<open>null\<close>; \<open>obj\<close> unchanged when it is another primitive; the
  prototype of \<open>obj\<close> set to \<open>proto\<close> when it is an object or an array (a new, extensible
  one here, so the assignment succeeds).
\<close>

fun setPrototypeOf :: "'n json \<Rightarrow> 'p \<Rightarrow> error + ('n, 'p) jsvalue" where
  "setPrototypeOf JNull proto = Inl TypeError"
| "setPrototypeOf (JArr xs) proto = Inr (Bound proto (JArr xs))"
| "setPrototypeOf (JObj kvs) proto = Inr (Bound proto (JObj kvs))"
| "setPrototypeOf obj proto = Inr (Unbound obj)"


definition fromJSON ::
  "(string \<Rightarrow> 'n json option) \<Rightarrow> 'p \<Rightarrow> string \<Rightarrow> error + ('n, 'p) jsvalue" where
  "fromJSON JSON_parse proto json =
     (case JSON_parse json of
        None \<Rightarrow> Inl ParseError
      | Some obj \<Rightarrow>
          (case setPrototypeOf obj proto of
             Inl e \<Rightarrow> Inl e
           | Inr bound \<Rightarrow> Inr bound))"

subsection \<open>The host's codec: JSON.stringify and JSON.parse\<close>

text \<open>
  A model of the two host functions, from their specification in ECMAScript
  (\<^verbatim>\<open>SerializeJSONProperty\<close>, \<^verbatim>\<open>QuoteJSONString\<close>, the JSON grammar, \<^verbatim>\<open>CreateDataProperty\<close>
  and the property order of ordinary objects), without indentation, replacer or reviver.
  It covers this fragment of the host's values and texts:
  \<^item> a number is \<open>Finite i\<close>, an integer of magnitude at most \<open>2\<^sup>5\<^sup>3 - 1\<close>, or one of
    \<^verbatim>\<open>NaN\<close>, \<^verbatim>\<open>Infinity\<close>, \<^verbatim>\<open>-Infinity\<close>; other numbers are IEEE doubles with a fraction
    or beyond the integers a double holds exactly, and have no counterpart here;
  \<^item> a character of a string is an ASCII code unit, or a byte of a character beyond ASCII,
    which both functions pass through unchanged;
  \<^item> \<open>JObj kvs\<close> lists the properties of an object in the order in which the host
    enumerates them: array indices first, in ascending order, then the other keys in the
    order of their creation.
  \<open>ES_JSON_parse\<close> returns \<open>None\<close> where \<^verbatim>\<open>JSON.parse\<close> throws its SyntaxError, and also
  for the texts beyond the fragment: a number token with a fraction or an exponent, the
  token \<^verbatim>\<open>-0\<close>, an integer beyond \<open>2\<^sup>5\<^sup>3 - 1\<close>, a \<^verbatim>\<open>\u\<close> escape from \<^verbatim>\<open>0080\<close> on.
\<close>

datatype number = Finite int | NaN | PosInfinity | NegInfinity




























subsection \<open>Plain data\<close>






section \<open>Properties of the selector builder\<close>

lemma initAll_new: "initAll s = new_CssBuilder"
  by (cases s) (simp add: initAll_def new_CssBuilder_def)

lemma join_nil_sep: "join [] xs = concat xs"
  by (induction "[]::string" xs rule: join.induct) simp_all

lemma join_brackets:
  "xs \<noteq> [] \<Longrightarrow> ''['' @ join '']['' xs @ '']'' = concat (map (\<lambda>a. ''['' @ a @ '']'') xs)"
  by (induction "''][''" xs rule: join.induct) simp_all

lemma brackets_piece:
  "(if length xs \<noteq> 0 then acc @ ''['' @ join '']['' xs @ '']'' else acc)
     = acc @ concat (map (\<lambda>a. ''['' @ a @ '']'') xs)"
proof (cases xs)
  case Nil
  then show ?thesis by simp
next
  case (Cons y ys)
  then have "xs \<noteq> []" by simp
  from join_brackets [OF this] show ?thesis using Cons by simp
qed

lemma mapped_piece:
  "(if length xs \<noteq> 0 then acc @ join [] (map f xs) else acc) = acc @ concat (map f xs)"
  by (simp add: join_nil_sep)

lemma option_piece:
  "(if truthy x then acc @ p @ to_string x else acc) = acc @ part p x"
  by (cases x) simp_all

lemma updateSelector_eq: "updateSelector s = s\<lparr>selector := rendered s\<rparr>"
proof -
  have tag_piece: "(if truthy (tag s) then [] @ to_string (tag s) else []) = part [] (tag s)"
    by (cases "tag s") simp_all
  show ?thesis
    unfolding updateSelector_def rendered_def Let_def tag_piece
      brackets_piece mapped_piece option_piece
    by (simp only: append_assoc)
qed

lemma selector_updateSelector: "selector (updateSelector s) = rendered s"
  by (simp add: updateSelector_eq)

lemma checkOrder_pass: "order s \<le> r \<Longrightarrow> checkOrder r s = Returned () (s\<lparr>order := r\<rparr>)"
  by (simp add: checkOrder_def)

lemma checkOrder_fail: "r < order s \<Longrightarrow> checkOrder r s = Thrown SelectorOrderError s"
  by (simp add: checkOrder_def)

lemmas call_defs = element_def id_sel_def class_sel_def attr_def pseudoClass_def
  pseudoElement_def onlyOneError_def

lemma invoke_duplicate:
  "truthy (slot c s) \<Longrightarrow> invoke c s = Thrown DuplicateSelectorPartError new_CssBuilder"
  by (cases c) (simp_all add: call_defs initAll_new)

lemma invoke_order_error:
  "\<not> truthy (slot c s) \<Longrightarrow> rank c < order s \<Longrightarrow> invoke c s = Thrown SelectorOrderError s"
  by (cases c) (simp_all add: call_defs checkOrder_fail)

lemma rendered_selector_update: "rendered (s\<lparr>selector := x\<rparr>) = rendered s"
  by (simp add: rendered_def)

lemma invoke_selector: "invoke c s = Returned () s' \<Longrightarrow> selector s' = rendered s'"
  by (cases c) (auto simp: call_defs checkOrder_def updateSelector_eq rendered_selector_update
      split: if_splits)

lemma invoke_accepts:
  "\<not> truthy (slot c s) \<Longrightarrow> order s \<le> rank c \<Longrightarrow> \<exists>s'. invoke c s = Returned () s' \<and> order s' = rank c"
  by (cases c) (simp_all add: call_defs checkOrder_pass updateSelector_eq)

lemma stringify_eq: "stringify s = (selector s, new_CssBuilder)"
  by (simp add: stringify_def initAll_new)

lemma combine_eq: "combine this l c r h =
   (\<lambda>x. if x = this then (if this = l \<or> this = r then new_CssBuilder else h this)
            \<lparr>selector := selector (h l) @ '' '' @ c @ '' '' @ (if r = l then [] else selector (h r))\<rparr>
         else if x = l \<or> x = r then new_CssBuilder else h x)"
  by (auto simp: combine_def stringify_at_def stringify_eq new_CssBuilder_def fun_eq_iff)

lemma chain_append: "chain (xs @ ys) s = and_then (chain xs s) (\<lambda>_ s'. chain ys s')"
proof (induction xs arbitrary: s)
  case Nil
  show ?case by simp
next
  case (Cons x xs)
  show ?case
  proof (cases "invoke x s")
    case (Returned u s1)
    then show ?thesis using Cons.IH [of s1] by simp
  next
    case (Thrown e s1)
    then show ?thesis by simp
  qed
qed

lemma slot_same_rank: "rank c = rank d \<Longrightarrow> slot c s = slot d s"
  by (cases c; cases d) simp_all

lemma invoke_slot_kept:
  assumes "truthy (slot c s)" and "invoke d s = Returned () s'"
  shows "slot c s' = slot c s"
proof (cases "rank d = rank c")
  case True
  then have "truthy (slot d s)" using assms(1) slot_same_rank [of d c s] by simp
  then show ?thesis using assms(2) invoke_duplicate [of d s] by simp
next
  case False
  then show ?thesis using assms(2)
    by (cases c; cases d)
       (auto simp: call_defs checkOrder_def updateSelector_eq split: if_splits)
qed

lemma invoke_slot_written:
  assumes "invoke c s = Returned () s'" and "rank c \<in> {1, 2, 6}"
  shows "slot c s' = Some (arg c)"
  using assms
  by (cases c) (auto simp: call_defs checkOrder_def updateSelector_eq split: if_splits)

lemma chain_slot_kept:
  "truthy (slot c s) \<Longrightarrow> chain ds s = Returned () s' \<Longrightarrow> slot c s' = slot c s"
proof (induction ds arbitrary: s)
  case Nil
  then show ?case by simp
next
  case (Cons d ds)
  show ?case
  proof (cases "invoke d s")
    case (Returned u s1)
    then have step: "invoke d s = Returned () s1" by simp
    have kept: "slot c s1 = slot c s" using invoke_slot_kept [OF Cons.prems(1) step] .
    have rest: "chain ds s1 = Returned () s'" using Cons.prems(2) Returned by simp
    have "slot c s' = slot c s1" using Cons.IH [of s1] kept Cons.prems(1) rest by simp
    then show ?thesis using kept by simp
  next
    case (Thrown e s1)
    then show ?thesis using Cons.prems(2) by simp
  qed
qed

lemma chain_second_call:
  assumes run: "chain cs s0 = Returned () s"
    and mem: "c \<in> set cs" and single: "rank c \<in> {1, 2, 6}" and nonempty: "arg c \<noteq> []"
    and same: "rank d = rank c"
  shows "invoke d s = Thrown DuplicateSelectorPartError new_CssBuilder"
proof -
  from mem obtain xs ys where cs: "cs = xs @ c # ys" by (auto dest: split_list)
  from run cs have whole: "and_then (chain xs s0) (\<lambda>_ s'. chain (c # ys) s') = Returned () s"
    by (simp add: chain_append)
  then obtain s1 where s1: "chain xs s0 = Returned () s1" and r1: "chain (c # ys) s1 = Returned () s"
    by (cases "chain xs s0") auto
  from r1 obtain s2 where s2: "invoke c s1 = Returned () s2" and r2: "chain ys s2 = Returned () s"
    by (cases "invoke c s1") auto
  have "slot c s2 = Some (arg c)" using invoke_slot_written [OF s2 single] .
  then have t2: "truthy (slot c s2)" and v2: "slot c s2 = Some (arg c)" using nonempty by simp_all
  have "slot c s = slot c s2" using chain_slot_kept [OF t2 r2] .
  then have "truthy (slot c s)" using t2 by simp
  then have "truthy (slot d s)" using slot_same_rank [OF same, of s] by simp
  then show ?thesis by (rule invoke_duplicate)
qed

lemmas run_defs = call_defs checkOrder_def updateSelector_def initAll_def new_CssBuilder_def
  stringify_def Let_def

lemma invoke_order_error_iff:
  "(\<exists>s'. invoke c s = Thrown SelectorOrderError s') \<longleftrightarrow> (rank c < order s \<and> \<not> truthy (slot c s))"
proof (cases "truthy (slot c s)")
  case True
  then show ?thesis using invoke_duplicate [of c s] by simp
next
  case False
  show ?thesis
  proof (cases "rank c < order s")
    case True
    then show ?thesis using False invoke_order_error [of c s] by simp
  next
    case False
    then have "order s \<le> rank c" by simp
    from invoke_accepts [OF \<open>\<not> truthy (slot c s)\<close> this] show ?thesis using False by auto
  qed
qed

lemma class_sel_appends:
  "order s \<le> 3 \<Longrightarrow> \<exists>s'. class_sel v s = Returned () s' \<and> classes s' = classes s @ [v]"
  by (simp add: class_sel_def checkOrder_pass updateSelector_eq)

lemma attr_appends:
  "order s \<le> 4 \<Longrightarrow> \<exists>s'. attr v s = Returned () s' \<and> attributes s' = attributes s @ [v]"
  by (simp add: attr_def checkOrder_pass updateSelector_eq)

lemma pseudoClass_appends:
  "order s \<le> 5 \<Longrightarrow> \<exists>s'. pseudoClass v s = Returned () s' \<and> psClasses s' = psClasses s @ [v]"
  by (simp add: pseudoClass_def checkOrder_pass updateSelector_eq)

lemma chain_selector:
  "chain cs s = Returned () s' \<Longrightarrow> cs \<noteq> [] \<Longrightarrow> selector s' = rendered s'"
proof (induction cs arbitrary: s)
  case Nil
  then show ?case by simp
next
  case (Cons c cs)
  from Cons.prems(1) obtain s1 where s1: "invoke c s = Returned () s1"
    and rest: "chain cs s1 = Returned () s'"
    by (cases "invoke c s") auto
  show ?case
  proof (cases cs)
    case Nil
    then have "s' = s1" using rest by simp
    then show ?thesis using invoke_selector [OF s1] by simp
  next
    case (Cons d ds)
    then have "cs \<noteq> []" by simp
    from Cons.IH [OF rest this] show ?thesis .
  qed
qed

lemma element_returned:
  "element v s = Returned () s' \<longleftrightarrow>
     \<not> truthy (tag s) \<and> order s \<le> 1 \<and> s' = updateSelector (s\<lparr>order := 1, tag := Some v\<rparr>)"
  by (cases "truthy (tag s)"; cases "order s \<le> 1")
     (simp_all add: element_def onlyOneError_def checkOrder_def, auto)

lemma id_sel_returned:
  "id_sel v s = Returned () s' \<longleftrightarrow>
     \<not> truthy (identificator s) \<and> order s \<le> 2
     \<and> s' = updateSelector (s\<lparr>order := 2, identificator := Some v\<rparr>)"
  by (cases "truthy (identificator s)"; cases "order s \<le> 2")
     (simp_all add: id_sel_def onlyOneError_def checkOrder_def, auto)

lemma pseudoElement_returned:
  "pseudoElement v s = Returned () s' \<longleftrightarrow>
     \<not> truthy (psElement s) \<and> order s \<le> 6
     \<and> s' = updateSelector (s\<lparr>order := 6, psElement := Some v\<rparr>)"
  by (cases "truthy (psElement s)"; cases "order s \<le> 6")
     (simp_all add: pseudoElement_def onlyOneError_def checkOrder_def, auto)

lemma element_empty_then:
  assumes "element [] s = Returned () s1"
  shows "\<not> truthy (tag s1) \<and> order s1 = 1
     \<and> element v s1 = Returned () (updateSelector (s1\<lparr>tag := Some v\<rparr>))"
proof -
  from assms have s1: "s1 = updateSelector (s\<lparr>order := 1, tag := Some []\<rparr>)"
    by (simp add: element_returned)
  then have f: "tag s1 = Some []" "order s1 = 1" by (simp_all add: updateSelector_eq)
  have same: "s1\<lparr>order := 1, tag := Some v\<rparr> = s1\<lparr>tag := Some v\<rparr>"
    using f(2) by (cases s1) simp
  have "element v s1 = Returned () (updateSelector (s1\<lparr>order := 1, tag := Some v\<rparr>))"
    using f by (simp add: element_returned)
  then have "element v s1 = Returned () (updateSelector (s1\<lparr>tag := Some v\<rparr>))"
    by (simp only: same)
  then show ?thesis using f by simp
qed

lemma id_sel_empty_then:
  assumes "id_sel [] s = Returned () s1"
  shows "\<not> truthy (identificator s1) \<and> order s1 = 2
     \<and> id_sel v s1 = Returned () (updateSelector (s1\<lparr>identificator := Some v\<rparr>))"
proof -
  from assms have s1: "s1 = updateSelector (s\<lparr>order := 2, identificator := Some []\<rparr>)"
    by (simp add: id_sel_returned)
  then have f: "identificator s1 = Some []" "order s1 = 2" by (simp_all add: updateSelector_eq)
  have same: "s1\<lparr>order := 2, identificator := Some v\<rparr> = s1\<lparr>identificator := Some v\<rparr>"
    using f(2) by (cases s1) simp
  have "id_sel v s1 = Returned () (updateSelector (s1\<lparr>order := 2, identificator := Some v\<rparr>))"
    using f by (simp add: id_sel_returned)
  then have "id_sel v s1 = Returned () (updateSelector (s1\<lparr>identificator := Some v\<rparr>))"
    by (simp only: same)
  then show ?thesis using f by simp
qed

lemma pseudoElement_empty_then:
  assumes "pseudoElement [] s = Returned () s1"
  shows "\<not> truthy (psElement s1) \<and> order s1 = 6
     \<and> pseudoElement v s1 = Returned () (updateSelector (s1\<lparr>psElement := Some v\<rparr>))"
proof -
  from assms have s1: "s1 = updateSelector (s\<lparr>order := 6, psElement := Some []\<rparr>)"
    by (simp add: pseudoElement_returned)
  then have f: "psElement s1 = Some []" "order s1 = 6" by (simp_all add: updateSelector_eq)
  have same: "s1\<lparr>order := 6, psElement := Some v\<rparr> = s1\<lparr>psElement := Some v\<rparr>"
    using f(2) by (cases s1) simp
  have "pseudoElement v s1 = Returned () (updateSelector (s1\<lparr>order := 6, psElement := Some v\<rparr>))"
    using f by (simp add: pseudoElement_returned)
  then have "pseudoElement v s1 = Returned () (updateSelector (s1\<lparr>psElement := Some v\<rparr>))"
    by (simp only: same)
  then show ?thesis using f by simp
qed

lemma invoke_thrown:
  assumes "invoke c s = Thrown e s'"
  shows "(e = DuplicateSelectorPartError \<and> s' = new_CssBuilder) \<or> (e = SelectorOrderError \<and> s' = s)"
proof (cases "truthy (slot c s)")
  case True
  then show ?thesis using assms invoke_duplicate [of c s] by simp
next
  case False
  show ?thesis
  proof (cases "rank c < order s")
    case True
    then show ?thesis using assms False invoke_order_error [of c s] by simp
  next
    case False
    then have "order s \<le> rank c" by simp
    from invoke_accepts [OF \<open>\<not> truthy (slot c s)\<close> this] show ?thesis using assms by auto
  qed
qed

lemma rendered_new: "rendered new_CssBuilder = []"
  by (simp add: rendered_def new_CssBuilder_def)

lemma invoke_current:
  assumes "selector s = rendered s"
  shows "selector (handle (invoke c s)) = rendered (handle (invoke c s))"
proof (cases "invoke c s")
  case (Returned u s')
  then have "invoke c s = Returned () s'" by simp
  from invoke_selector [OF this] show ?thesis using Returned by simp
next
  case (Thrown e s')
  from invoke_thrown [OF this] show ?thesis
    using Thrown assms by (auto simp: rendered_new) (simp add: new_CssBuilder_def)
qed

lemma chain_current:
  "selector s = rendered s \<Longrightarrow> selector (handle (chain cs s)) = rendered (handle (chain cs s))"
proof (induction cs arbitrary: s)
  case Nil
  then show ?case by simp
next
  case (Cons c cs)
  show ?case
  proof (cases "invoke c s")
    case (Returned u s')
    then have "selector s' = rendered s'" using invoke_current [OF Cons.prems, of c] by simp
    from Cons.IH [OF this] show ?thesis using Returned by simp
  next
    case (Thrown e s')
    then show ?thesis using invoke_current [OF Cons.prems, of c] by simp
  qed
qed

lemma new_current: "selector new_CssBuilder = rendered new_CssBuilder"
  by (simp add: rendered_new) (simp add: new_CssBuilder_def)

lemma invoke_duplicate_iff:
  "(\<exists>s'. invoke c s = Thrown DuplicateSelectorPartError s') \<longleftrightarrow> truthy (slot c s)"
proof (cases "truthy (slot c s)")
  case True
  then show ?thesis using invoke_duplicate [of c s] by simp
next
  case False
  have "invoke c s \<noteq> Thrown DuplicateSelectorPartError s'" for s'
  proof (cases "rank c < order s")
    case True
    then show ?thesis using False invoke_order_error [of c s] by simp
  next
    case False
    then have "order s \<le> rank c" by simp
    from invoke_accepts [OF \<open>\<not> truthy (slot c s)\<close> this] show ?thesis by auto
  qed
  then show ?thesis using False by simp
qed

lemma stringify_at_eq: "stringify_at r h = (selector (h r), h(r := new_CssBuilder))"
  by (simp add: stringify_at_def stringify_eq)

section \<open>Properties of fromJSON\<close>

lemma fromJSON_eq:
  "fromJSON JSON_parse proto json =
     (case JSON_parse json of
        None \<Rightarrow> Inl ParseError
      | Some JNull \<Rightarrow> Inl TypeError
      | Some (JArr xs) \<Rightarrow> Inr (Bound proto (JArr xs))
      | Some (JObj kvs) \<Rightarrow> Inr (Bound proto (JObj kvs))
      | Some obj \<Rightarrow> Inr (Unbound obj))"
  by (simp add: fromJSON_def split: option.splits json.splits)

section \<open>The codec reproduces plain data\<close>

subsection \<open>Numbers\<close>
























subsection \<open>Strings\<close>






subsection \<open>Values\<close>












lemma join_Cons2: "join sep (x # y # ys) = x @ sep @ join sep (y # ys)"
  by simp







section \<open>The examples of the documentation\<close>

lemma example_id_classes:
  "fst (stringify (handle
     (chain [Id ''main'', Class ''container'', Class ''editable''] new_CssBuilder)))
   = ''#main.container.editable''"
  by (simp add: run_defs)

lemma example_element_attr_pseudoClass:
  "fst (stringify (handle
     (chain [Element ''a'', Attr ''href$=\".png\"'', PseudoClass ''focus''] new_CssBuilder)))
   = ''a[href$=\".png\"]:focus''"
  by (simp add: run_defs)

lemma example_rectangle:
  "width (Rectangle (10::int) 20) = 10 \<and> height (Rectangle (10::int) 20) = 20
   \<and> getArea (Rectangle (10::int) 20) = 200"
  by (simp add: Rectangle_def getArea_def)

section \<open>The claims\<close>

text \<open>
  C1 (as amended). A fragment-adding call whose rank is strictly less than the rank the
  handle tracks is always rejected. When the call is \<^verbatim>\<open>element\<close> or \<^verbatim>\<open>id\<close> and that
  slot already holds a non-empty string, the uniqueness check comes first: the call raises
  DuplicateSelectorPartError and the handle is reset to the state of a new one. Otherwise
  the call raises SelectorOrderError. Nothing is said here about the state of the handle
  after a SelectorOrderError.
\<close>

theorem lower_rank_rejected:
  assumes "rank c < order s"
  shows "if truthy (slot c s)
         then invoke c s = Thrown DuplicateSelectorPartError new_CssBuilder
         else \<exists>s'. invoke c s = Thrown SelectorOrderError s'"
  using assms invoke_duplicate [of c s] invoke_order_error [of c s] by simp

theorem lower_rank_rejected_witness:
  "rank (Element ''a'') < order (handle (chain [Id ''x''] new_CssBuilder))
   \<and> \<not> truthy (slot (Element ''a'') (handle (chain [Id ''x''] new_CssBuilder)))
   \<and> (\<exists>s'. invoke (Element ''a'') (handle (chain [Id ''x''] new_CssBuilder))
          = Thrown SelectorOrderError s')
   \<and> rank (Element ''b'') < order (handle (chain [Element ''a'', Id ''x''] new_CssBuilder))
   \<and> truthy (slot (Element ''b'') (handle (chain [Element ''a'', Id ''x''] new_CssBuilder)))
   \<and> invoke (Element ''b'') (handle (chain [Element ''a'', Id ''x''] new_CssBuilder))
       = Thrown DuplicateSelectorPartError new_CssBuilder"
  using lower_rank_rejected [of "Element ''a''" "handle (chain [Id ''x''] new_CssBuilder)"]
    lower_rank_rejected [of "Element ''b''"
      "handle (chain [Element ''a'', Id ''x''] new_CssBuilder)"]
  by (simp add: run_defs)

text \<open>
  The claim as first stated fails twice. \<^verbatim>\<open>element('a').id('x').element('b')\<close>: the last
  call has rank 1 below the tracked rank 2 and raises the duplicate error, not the order
  error. \<^verbatim>\<open>id('x').element('a')\<close>: the last call raises the order error and the handle
  keeps its id, its rendered string and its rank.
\<close>

theorem lower_rank_counterexample:
  "chain [Element ''a'', Id ''x'', Element ''b''] new_CssBuilder
     = Thrown DuplicateSelectorPartError new_CssBuilder
   \<and> chain [Id ''x'', Element ''a''] new_CssBuilder
     = Thrown SelectorOrderError
         \<lparr>tag = None, classes = [], identificator = Some ''x'', attributes = [],
          psClasses = [], psElement = None, selector = ''#x'', order = 2\<rparr>
   \<and> handle (chain [Id ''x'', Element ''a''] new_CssBuilder) \<noteq> new_CssBuilder"
  by (simp add: run_defs)

text \<open>
  C2. On every handle, a call of \<^verbatim>\<open>element\<close>, \<^verbatim>\<open>id\<close> or \<^verbatim>\<open>pseudoElement\<close> whose slot is
  already set (holds a non-empty string) raises DuplicateSelectorPartError and leaves the
  handle in the state of a new one. In particular, after any chain of successful calls that
  contains a call of a singleton category with a non-empty argument, one more call of that
  category is rejected in this way.
\<close>

theorem duplicate_singleton_rejected:
  "(truthy (tag s) \<longrightarrow> element v s = Thrown DuplicateSelectorPartError new_CssBuilder)
   \<and> (truthy (identificator s) \<longrightarrow>
        id_sel v s = Thrown DuplicateSelectorPartError new_CssBuilder)
   \<and> (truthy (psElement s) \<longrightarrow>
        pseudoElement v s = Thrown DuplicateSelectorPartError new_CssBuilder)
   \<and> (chain cs s0 = Returned () s \<and> c \<in> set cs \<and> rank c \<in> {1, 2, 6} \<and> arg c \<noteq> []
        \<and> rank d = rank c \<longrightarrow>
        invoke d s = Thrown DuplicateSelectorPartError new_CssBuilder)"
proof -
  have a: "truthy (tag s) \<longrightarrow> element v s = Thrown DuplicateSelectorPartError new_CssBuilder"
    using invoke_duplicate [of "Element v" s] by simp
  have b: "truthy (identificator s) \<longrightarrow>
      id_sel v s = Thrown DuplicateSelectorPartError new_CssBuilder"
    using invoke_duplicate [of "Id v" s] by simp
  have c: "truthy (psElement s) \<longrightarrow>
      pseudoElement v s = Thrown DuplicateSelectorPartError new_CssBuilder"
    using invoke_duplicate [of "PseudoElement v" s] by simp
  have d: "chain cs s0 = Returned () s \<and> c \<in> set cs \<and> rank c \<in> {1, 2, 6} \<and> arg c \<noteq> []
        \<and> rank d = rank c \<longrightarrow>
        invoke d s = Thrown DuplicateSelectorPartError new_CssBuilder"
    using chain_second_call [of cs s0 s c d] by blast
  from a b c d show ?thesis by blast
qed

theorem duplicate_singleton_rejected_witness:
  "chain [Element ''a'', Id ''x'', PseudoElement ''e''] new_CssBuilder
     = Returned () (handle (chain [Element ''a'', Id ''x'', PseudoElement ''e''] new_CssBuilder))
   \<and> Element ''a'' \<in> set [Element ''a'', Id ''x'', PseudoElement ''e'']
   \<and> truthy (tag (handle (chain [Element ''a'', Id ''x'', PseudoElement ''e''] new_CssBuilder)))
   \<and> truthy (identificator
        (handle (chain [Element ''a'', Id ''x'', PseudoElement ''e''] new_CssBuilder)))
   \<and> truthy (psElement
        (handle (chain [Element ''a'', Id ''x'', PseudoElement ''e''] new_CssBuilder)))
   \<and> element ''div''
        (handle (chain [Element ''a'', Id ''x'', PseudoElement ''e''] new_CssBuilder))
      = Thrown DuplicateSelectorPartError new_CssBuilder
   \<and> id_sel ''y''
        (handle (chain [Element ''a'', Id ''x'', PseudoElement ''e''] new_CssBuilder))
      = Thrown DuplicateSelectorPartError new_CssBuilder
   \<and> pseudoElement ''f''
        (handle (chain [Element ''a'', Id ''x'', PseudoElement ''e''] new_CssBuilder))
      = Thrown DuplicateSelectorPartError new_CssBuilder
   \<and> invoke (Element ''div'')
        (handle (chain [Element ''a'', Id ''x'', PseudoElement ''e''] new_CssBuilder))
      = Thrown DuplicateSelectorPartError new_CssBuilder"
  using duplicate_singleton_rejected [of
      "handle (chain [Element ''a'', Id ''x'', PseudoElement ''e''] new_CssBuilder)"
      "''div''" "[Element ''a'', Id ''x'', PseudoElement ''e'']" new_CssBuilder
      "Element ''a''" "Element ''div''"]
    duplicate_singleton_rejected [of
      "handle (chain [Element ''a'', Id ''x'', PseudoElement ''e''] new_CssBuilder)" "''y''"]
    duplicate_singleton_rejected [of
      "handle (chain [Element ''a'', Id ''x'', PseudoElement ''e''] new_CssBuilder)" "''f''"]
  by (simp add: run_defs)

text \<open>
  C3. \<^verbatim>\<open>updateSelector\<close> stores the string \<open>rendered\<close>: the tag if set, each attribute in
  square brackets, the id after \<open>#\<close> if set, each class after a dot, each pseudo-class after
  a colon, the pseudo-element after \<open>::\<close> if set, in this sequence. The string depends on
  the fields alone, not on the calls that filled them. Every non-empty chain of successful
  adding calls ends with it in the \<^verbatim>\<open>selector\<close> field, and so does every chain of adding
  calls on a new handle, rejected calls included. A singleton part is set when it holds a
  non-empty string.
\<close>

theorem rendering_fixed_sequence:
  "updateSelector s = s\<lparr>selector := rendered s\<rparr>
   \<and> (cs \<noteq> [] \<and> chain cs s = Returned () s' \<longrightarrow> selector s' = rendered s')
   \<and> selector (handle (chain cs new_CssBuilder)) = rendered (handle (chain cs new_CssBuilder))"
  using updateSelector_eq [of s] chain_selector [of cs s s'] chain_current [OF new_current, of cs]
  by blast

theorem rendering_fixed_sequence_witness:
  "[Element ''a'', Id ''i'', Class ''c'', Class ''d'', Attr ''x'', Attr ''y'',
      PseudoClass ''p'', PseudoElement ''e''] \<noteq> []
   \<and> chain [Element ''a'', Id ''i'', Class ''c'', Class ''d'', Attr ''x'', Attr ''y'',
      PseudoClass ''p'', PseudoElement ''e''] new_CssBuilder
     = Returned ()
        \<lparr>tag = Some ''a'', classes = [''c'', ''d''], identificator = Some ''i'',
         attributes = [''x'', ''y''], psClasses = [''p''], psElement = Some ''e'',
         selector = ''a[x][y]#i.c.d:p::e'', order = 6\<rparr>
   \<and> rendered
        \<lparr>tag = Some ''a'', classes = [''c'', ''d''], identificator = Some ''i'',
         attributes = [''x'', ''y''], psClasses = [''p''], psElement = Some ''e'',
         selector = ''a[x][y]#i.c.d:p::e'', order = 6\<rparr>
     = ''a[x][y]#i.c.d:p::e''"
proof -
  let ?cs = "[Element ''a'', Id ''i'', Class ''c'', Class ''d'', Attr ''x'', Attr ''y'',
      PseudoClass ''p'', PseudoElement ''e'']"
  let ?s = "\<lparr>tag = Some ''a'', classes = [''c'', ''d''], identificator = Some ''i'',
         attributes = [''x'', ''y''], psClasses = [''p''], psElement = Some ''e'',
         selector = ''a[x][y]#i.c.d:p::e'', order = 6\<rparr>"
  have run: "chain ?cs new_CssBuilder = Returned () ?s"
    by (simp add: run_defs)
  have ne: "?cs \<noteq> []" by simp
  from rendering_fixed_sequence [of new_CssBuilder ?cs ?s] run ne
  have "selector ?s = rendered ?s" by blast
  then show ?thesis using run by simp
qed

text \<open>
  C4 (as amended). A fragment-adding call whose rank is equal to (or above) the rank the
  handle tracks succeeds and makes its rank the tracked one, unless it is \<^verbatim>\<open>element\<close>,
  \<^verbatim>\<open>id\<close> or \<^verbatim>\<open>pseudoElement\<close> and that slot is already set, in which case it raises the
  duplicate error of C2. \<^verbatim>\<open>class\<close>, \<^verbatim>\<open>attr\<close> and \<^verbatim>\<open>pseudoClass\<close> have no such slot:
  called at their own rank or below it they always succeed and append the value at the end
  of their list, whatever the list holds already. The order error is raised exactly when the
  rank is strictly lower and no duplicate error comes first.
\<close>

theorem equal_rank_accepted:
  "(order s \<le> rank c \<and> \<not> truthy (slot c s) \<longrightarrow>
      (\<exists>s'. invoke c s = Returned () s' \<and> order s' = rank c))
   \<and> (order s \<le> 3 \<longrightarrow> (\<exists>s'. class_sel v s = Returned () s' \<and> classes s' = classes s @ [v]))
   \<and> (order s \<le> 4 \<longrightarrow> (\<exists>s'. attr v s = Returned () s' \<and> attributes s' = attributes s @ [v]))
   \<and> (order s \<le> 5 \<longrightarrow>
        (\<exists>s'. pseudoClass v s = Returned () s' \<and> psClasses s' = psClasses s @ [v]))
   \<and> ((\<exists>s'. invoke c s = Thrown SelectorOrderError s') \<longleftrightarrow>
        (rank c < order s \<and> \<not> truthy (slot c s)))"
  using invoke_accepts [of c s] class_sel_appends [of s v] attr_appends [of s v]
    pseudoClass_appends [of s v] invoke_order_error_iff [of c s]
  by blast

theorem equal_rank_accepted_witness:
  "order (handle (chain [Class ''a''] new_CssBuilder)) \<le> rank (Class ''a'')
   \<and> \<not> truthy (slot (Class ''a'') (handle (chain [Class ''a''] new_CssBuilder)))
   \<and> order (handle (chain [Class ''a''] new_CssBuilder)) \<le> 3
   \<and> (\<exists>s'. invoke (Class ''a'') (handle (chain [Class ''a''] new_CssBuilder)) = Returned () s'
          \<and> order s' = rank (Class ''a''))
   \<and> (\<exists>s'. class_sel ''a'' (handle (chain [Class ''a''] new_CssBuilder)) = Returned () s'
          \<and> classes s' = [''a'', ''a''])
   \<and> (\<exists>s'. attr ''b'' (handle (chain [Class ''a''] new_CssBuilder)) = Returned () s'
          \<and> attributes s' = [''b''])
   \<and> (\<exists>s'. pseudoClass ''p'' (handle (chain [Class ''a''] new_CssBuilder)) = Returned () s'
          \<and> psClasses s' = [''p''])
   \<and> rank (Id ''x'') < order (handle (chain [Class ''a''] new_CssBuilder))
   \<and> (\<exists>s'. invoke (Id ''x'') (handle (chain [Class ''a''] new_CssBuilder))
          = Thrown SelectorOrderError s')"
proof -
  let ?s = "handle (chain [Class ''a''] new_CssBuilder)"
  have s: "?s = \<lparr>tag = None, classes = [''a''], identificator = None, attributes = [],
      psClasses = [], psElement = None, selector = ''.a'', order = 3\<rparr>"
    by (simp add: run_defs)
  have hyps: "order ?s \<le> rank (Class ''a'')" "\<not> truthy (slot (Class ''a'') ?s)"
    "order ?s \<le> 3" "order ?s \<le> 4" "order ?s \<le> 5"
    "rank (Id ''x'') < order ?s" "\<not> truthy (slot (Id ''x'') ?s)"
    "classes ?s = [''a'']" "attributes ?s = []" "psClasses ?s = []"
    unfolding s by simp_all
  have one: "\<exists>s'. invoke (Class ''a'') ?s = Returned () s' \<and> order s' = rank (Class ''a'')"
    using equal_rank_accepted [of ?s "Class ''a''" "''a''"] hyps by blast
  have two: "\<exists>s'. class_sel ''a'' ?s = Returned () s' \<and> classes s' = [''a'', ''a'']"
    using equal_rank_accepted [of ?s "Class ''a''" "''a''"] hyps by simp
  have three: "\<exists>s'. attr ''b'' ?s = Returned () s' \<and> attributes s' = [''b'']"
    using equal_rank_accepted [of ?s "Class ''a''" "''b''"] hyps by simp
  have four: "\<exists>s'. pseudoClass ''p'' ?s = Returned () s' \<and> psClasses s' = [''p'']"
    using equal_rank_accepted [of ?s "Class ''a''" "''p''"] hyps by simp
  have five: "\<exists>s'. invoke (Id ''x'') ?s = Thrown SelectorOrderError s'"
    using equal_rank_accepted [of ?s "Id ''x''" "''x''"] hyps by blast
  from hyps one two three four five show ?thesis by blast
qed

text \<open>
  The claim as first stated fails at \<^verbatim>\<open>element('a').element('div')\<close>: the second call has
  rank 1, the rank the handle tracks, and raises the duplicate error.
\<close>

theorem equal_rank_counterexample:
  "order (handle (chain [Element ''a''] new_CssBuilder)) = rank (Element ''div'')
   \<and> invoke (Element ''div'') (handle (chain [Element ''a''] new_CssBuilder))
       = Thrown DuplicateSelectorPartError new_CssBuilder"
  by (simp add: run_defs)

text \<open>
  C5. \<^verbatim>\<open>stringify\<close> returns the string in the \<^verbatim>\<open>selector\<close> field and leaves the handle in
  the state of a new one: no tag, id or pseudo-element, no classes, attributes or
  pseudo-classes, the empty string as rendered selector, rank 0. Whatever is called next on
  the handle behaves as on a new handle, as does every entry point of the facade, which
  starts from a new handle.
\<close>

theorem stringify_resets:
  "stringify s = (selector s, new_CssBuilder)
   \<and> snd (stringify s) =
        \<lparr>tag = None, classes = [], identificator = None, attributes = [],
         psClasses = [], psElement = None, selector = [], order = 0\<rparr>
   \<and> stringify (snd (stringify s)) = ([], new_CssBuilder)
   \<and> chain cs (snd (stringify s)) = chain cs new_CssBuilder
   \<and> cssSelectorBuilder_element v = element v (snd (stringify s))
   \<and> cssSelectorBuilder_stringify = ([], snd (stringify s))"
  by (simp add: stringify_eq cssSelectorBuilder_element_def cssSelectorBuilder_stringify_def)
     (simp add: new_CssBuilder_def)

theorem stringify_resets_witness:
  "stringify (handle (chain [Id ''main'', Class ''container'', Class ''editable''] new_CssBuilder))
     = (''#main.container.editable'', new_CssBuilder)
   \<and> chain [Element ''a'']
        (snd (stringify
          (handle (chain [Id ''main'', Class ''container'', Class ''editable''] new_CssBuilder))))
     = cssSelectorBuilder_element ''a''"
  using stringify_resets [of
      "handle (chain [Id ''main'', Class ''container'', Class ''editable''] new_CssBuilder)"
      "[Element ''a'']" "''a''"]
  by (simp add: run_defs)

text \<open>
  C6. \<^verbatim>\<open>combine(left, combinator, right)\<close> calls \<^verbatim>\<open>stringify\<close> on \<open>left\<close>, then on
  \<open>right\<close>, which resets each of them, and stores in the \<^verbatim>\<open>selector\<close> field of its own
  handle the left string, a space, the combinator, a space and the right string;
  \<^verbatim>\<open>stringify\<close> on that handle returns this string. The left string is the one \<open>left\<close> held;
  the right string is the one \<open>right\<close> held, or the empty string when \<open>right\<close> is the object
  \<open>left\<close>, which its own \<^verbatim>\<open>stringify\<close> has just reset. Every other object is untouched.
\<close>

theorem combine_joins:
  "selector (combine this l c r h this)
     = fst (stringify_at l h) @ '' '' @ c @ '' '' @ fst (stringify_at r (snd (stringify_at l h)))
   \<and> fst (stringify_at this (combine this l c r h))
     = fst (stringify_at l h) @ '' '' @ c @ '' '' @ fst (stringify_at r (snd (stringify_at l h)))
   \<and> fst (stringify_at l h) = selector (h l)
   \<and> fst (stringify_at r (snd (stringify_at l h))) = (if r = l then [] else selector (h r))
   \<and> snd (stringify_at l h) l = new_CssBuilder
   \<and> snd (stringify_at r (snd (stringify_at l h))) r = new_CssBuilder
   \<and> (\<forall>x. x \<noteq> this \<longrightarrow>
         combine this l c r h x = (if x = l \<or> x = r then new_CssBuilder else h x))"
  by (simp add: combine_eq stringify_at_eq) (simp add: new_CssBuilder_def)

theorem combine_joins_witness:
  "(1::nat) \<noteq> 0
   \<and> fst (stringify_at 0
        (cssSelectorBuilder_combine 0 1 ''+'' 2
          ((\<lambda>_. new_CssBuilder)
             (1 := handle (chain [Element ''div'', Id ''main''] new_CssBuilder),
              2 := handle (chain [Element ''table'', Id ''data''] new_CssBuilder)))))
      = ''div#main + table#data''
   \<and> cssSelectorBuilder_combine 0 1 ''+'' 2
          ((\<lambda>_. new_CssBuilder)
             (1 := handle (chain [Element ''div'', Id ''main''] new_CssBuilder),
              2 := handle (chain [Element ''table'', Id ''data''] new_CssBuilder))) 1
      = new_CssBuilder"
  using combine_joins [of 0 1 "''+''" 2
      "((\<lambda>_. new_CssBuilder)
             (1 := handle (chain [Element ''div'', Id ''main''] new_CssBuilder),
              2 := handle (chain [Element ''table'', Id ''data''] new_CssBuilder)))
        (0 := new_CssBuilder)"]
  by (simp add: cssSelectorBuilder_combine_def stringify_at_eq run_defs)




text \<open>
  C8 (as amended). \<^verbatim>\<open>fromJSON(proto, text)\<close> fails with a ParseError exactly when \<open>text\<close>
  is not valid serialized data. When \<open>text\<close> is the serialization of an object or of an
  array, the result is that value with prototype \<open>proto\<close>, whatever its keys and values: no
  shape is checked against the descriptor. When \<open>text\<close> is the serialization of a string, a
  number or a boolean, the result is that primitive, to which nothing is bound. When \<open>text\<close>
  is the serialization of \<^verbatim>\<open>null\<close>, the call throws a TypeError.
\<close>

theorem fromJSON_binding:
  "(fromJSON JSON_parse proto json = Inl ParseError \<longleftrightarrow> JSON_parse json = None)
   \<and> (JSON_parse json = Some obj \<and> is_object obj \<longrightarrow>
        fromJSON JSON_parse proto json = Inr (Bound proto obj))
   \<and> (JSON_parse json = Some JNull \<longrightarrow> fromJSON JSON_parse proto json = Inl TypeError)
   \<and> (JSON_parse json = Some obj \<and> obj \<noteq> JNull \<and> \<not> is_object obj \<longrightarrow>
        fromJSON JSON_parse proto json = Inr (Unbound obj))"
  by (cases obj) (auto simp: fromJSON_eq split: option.splits json.splits)

theorem fromJSON_binding_witness:
  "fromJSON
      (\<lambda>t. if t = ''{\"radius\":10}'' then Some (JObj [(''radius'', JNum (10::nat))])
           else if t = ''10'' then Some (JNum 10)
           else if t = ''null'' then Some JNull
           else None)
      ''Circle'' ''{\"radius\":10}''
     = Inr (Bound ''Circle'' (JObj [(''radius'', JNum 10)]))
   \<and> fromJSON
      (\<lambda>t. if t = ''{\"radius\":10}'' then Some (JObj [(''radius'', JNum (10::nat))])
           else if t = ''10'' then Some (JNum 10)
           else if t = ''null'' then Some JNull
           else None)
      ''Circle'' ''10''
     = Inr (Unbound (JNum 10))
   \<and> fromJSON
      (\<lambda>t. if t = ''{\"radius\":10}'' then Some (JObj [(''radius'', JNum (10::nat))])
           else if t = ''10'' then Some (JNum 10)
           else if t = ''null'' then Some JNull
           else None)
      ''Circle'' ''null''
     = Inl TypeError
   \<and> fromJSON
      (\<lambda>t. if t = ''{\"radius\":10}'' then Some (JObj [(''radius'', JNum (10::nat))])
           else if t = ''10'' then Some (JNum 10)
           else if t = ''null'' then Some JNull
           else None)
      ''Circle'' ''{radius''
     = Inl ParseError"
proof -
  let ?parse = "\<lambda>t. if t = ''{\"radius\":10}'' then Some (JObj [(''radius'', JNum (10::nat))])
           else if t = ''10'' then Some (JNum 10)
           else if t = ''null'' then Some JNull
           else None"
  have p1: "?parse ''{\"radius\":10}'' = Some (JObj [(''radius'', JNum 10)])
      \<and> is_object (JObj [(''radius'', JNum (10::nat))])" by simp
  have p2: "?parse ''10'' = Some (JNum 10) \<and> JNum (10::nat) \<noteq> JNull
      \<and> \<not> is_object (JNum (10::nat))" by simp
  have p3: "?parse ''null'' = Some JNull" by simp
  have p4: "?parse ''{radius'' = None" by simp
  have a: "fromJSON ?parse ''Circle'' ''{\"radius\":10}''
      = Inr (Bound ''Circle'' (JObj [(''radius'', JNum 10)]))"
    using fromJSON_binding [of ?parse "''Circle''" "''{\"radius\":10}''"
        "JObj [(''radius'', JNum 10)]"] p1 by blast
  have b: "fromJSON ?parse ''Circle'' ''10'' = Inr (Unbound (JNum 10))"
    using fromJSON_binding [of ?parse "''Circle''" "''10''" "JNum 10"] p2 by blast
  have c: "fromJSON ?parse ''Circle'' ''null'' = Inl TypeError"
    using fromJSON_binding [of ?parse "''Circle''" "''null''" JNull] p3 by blast
  have d: "fromJSON ?parse ''Circle'' ''{radius'' = Inl ParseError"
    using fromJSON_binding [of ?parse "''Circle''" "''{radius''" JNull] p4 by blast
  from a b c d show ?thesis by blast
qed

text \<open>
  The claim as first stated fails at the valid texts \<^verbatim>\<open>null\<close> and \<^verbatim>\<open>10\<close>: for every
  parser that reads them as \<^verbatim>\<open>null\<close> and as the number 10, the first returns no value and
  the second returns a value that does not have the descriptor as its prototype.
\<close>

theorem fromJSON_binding_counterexample:
  "\<not> (\<exists>JSON_parse proto y.
        JSON_parse ''null'' = Some (JNull :: nat json)
        \<and> fromJSON JSON_parse (proto :: string) ''null'' = Inr y)
   \<and> \<not> (\<exists>JSON_parse proto y.
        JSON_parse ''10'' = Some (JNum (10::nat))
        \<and> fromJSON JSON_parse (proto :: string) ''10'' = Inr y
        \<and> prototype_of y = Some proto)"
  by (auto simp: fromJSON_eq)

text \<open>
  C9. \<^verbatim>\<open>new Rectangle(w, h)\<close> has the fields \<^verbatim>\<open>width\<close> and \<^verbatim>\<open>height\<close> with the values
  \<open>w\<close> and \<open>h\<close>, and \<^verbatim>\<open>getArea()\<close> is the product of the two fields as they are when it is
  called: \<open>w * h\<close> on the new object, and the product with the new value once a field has
  been assigned.
\<close>

theorem rectangle_area:
  "width (Rectangle w h) = w \<and> height (Rectangle w h) = h
   \<and> getArea (Rectangle w h) = w * h
   \<and> getArea (r\<lparr>width := w'\<rparr>) = w' * height r
   \<and> getArea (r\<lparr>height := h'\<rparr>) = width r * h'
   \<and> getArea ((Rectangle w h)\<lparr>width := w'\<rparr>) = w' * h
   \<and> getArea ((Rectangle w h)\<lparr>height := h'\<rparr>) = w * h'"
  by (simp add: Rectangle_def getArea_def)

theorem rectangle_area_witness:
  "width (Rectangle (10::int) 20) = 10 \<and> height (Rectangle (10::int) 20) = 20
   \<and> getArea (Rectangle (10::int) 20) = 200
   \<and> getArea ((Rectangle (10::int) 20)\<lparr>width := 3\<rparr>) = 60"
  using rectangle_area [of "10::int" 20 3 "Rectangle (10::int) 20" 0]
  by (simp add: Rectangle_def)

text \<open>
  C10. A successful call of \<^verbatim>\<open>element\<close>, \<^verbatim>\<open>id\<close> or \<^verbatim>\<open>pseudoElement\<close> with the empty
  string leaves the slot falsy, so the category does not count as set: the next call of the
  same method on the handle, with any argument, succeeds and stores its argument in the
  slot instead of raising the duplicate error. More generally, no call raises the duplicate
  error while its slot holds a falsy value, \<^verbatim>\<open>null\<close> or the empty string. (Arguments are
  strings, and the empty string is the one falsy string.)
\<close>

theorem empty_string_not_set:
  "(element [] s = Returned () s1 \<longrightarrow>
      \<not> truthy (tag s1) \<and> element v s1 = Returned () (updateSelector (s1\<lparr>tag := Some v\<rparr>)))
   \<and> (id_sel [] s = Returned () s2 \<longrightarrow>
      \<not> truthy (identificator s2)
      \<and> id_sel v s2 = Returned () (updateSelector (s2\<lparr>identificator := Some v\<rparr>)))
   \<and> (pseudoElement [] s = Returned () s3 \<longrightarrow>
      \<not> truthy (psElement s3)
      \<and> pseudoElement v s3 = Returned () (updateSelector (s3\<lparr>psElement := Some v\<rparr>)))
   \<and> (\<not> truthy (slot c s) \<longrightarrow> (\<forall>s'. invoke c s \<noteq> Thrown DuplicateSelectorPartError s'))"
  using element_empty_then [of s s1 v] id_sel_empty_then [of s s2 v]
    pseudoElement_empty_then [of s s3 v] invoke_duplicate_iff [of c s]
  by blast

theorem empty_string_not_set_witness:
  "element [] new_CssBuilder = Returned () (handle (element [] new_CssBuilder))
   \<and> element ''div'' (handle (element [] new_CssBuilder))
     = Returned () \<lparr>tag = Some ''div'', classes = [], identificator = None, attributes = [],
         psClasses = [], psElement = None, selector = ''div'', order = 1\<rparr>
   \<and> id_sel [] new_CssBuilder = Returned () (handle (id_sel [] new_CssBuilder))
   \<and> id_sel ''main'' (handle (id_sel [] new_CssBuilder))
     = Returned () \<lparr>tag = None, classes = [], identificator = Some ''main'', attributes = [],
         psClasses = [], psElement = None, selector = ''#main'', order = 2\<rparr>
   \<and> pseudoElement [] new_CssBuilder = Returned () (handle (pseudoElement [] new_CssBuilder))
   \<and> pseudoElement ''after'' (handle (pseudoElement [] new_CssBuilder))
     = Returned () \<lparr>tag = None, classes = [], identificator = None, attributes = [],
         psClasses = [], psElement = Some ''after'', selector = ''::after'', order = 6\<rparr>
   \<and> \<not> truthy (slot (Element ''div'') (handle (element [] new_CssBuilder)))
   \<and> (\<forall>s'. invoke (Element ''div'') (handle (element [] new_CssBuilder))
          \<noteq> Thrown DuplicateSelectorPartError s')"
  using empty_string_not_set [of "handle (element [] new_CssBuilder)" _ _ _ _
      "Element ''div''"]
    empty_string_not_set [of new_CssBuilder "handle (element [] new_CssBuilder)" "''div''"
      "handle (id_sel [] new_CssBuilder)" "handle (pseudoElement [] new_CssBuilder)"]
    empty_string_not_set [of new_CssBuilder "handle (element [] new_CssBuilder)" "''main''"
      "handle (id_sel [] new_CssBuilder)" "handle (pseudoElement [] new_CssBuilder)"]
    empty_string_not_set [of new_CssBuilder "handle (element [] new_CssBuilder)" "''after''"
      "handle (id_sel [] new_CssBuilder)" "handle (pseudoElement [] new_CssBuilder)"]
  by (simp add: run_defs)

end
